theory Spec2Isabelle
  imports Main "HOL-Library.Word"
begin

section \<open>Token kinds and the keyword array of tokenizer.h\<close>

text \<open>
  The enumeration \<open>TokenType\<close> (tokenizer.h, lines 34-111), one constructor per
  enumerator, in the order of declaration.
\<close>

datatype TokenType =
    TT_INTEGER
  | TT_FLOAT
  | TT_STRING
  | TT_IDENTIFIER
  | TT_BOOLEAN
  | TT_IT
  | TT_ITZLIEKA
  | TT_NOOB
  | TT_NUMBR
  | TT_NUMBAR
  | TT_TROOF
  | TT_YARN
  | TT_BUKKIT
  | TT_EOF
  | TT_NEWLINE
  | TT_HAI
  | TT_KTHXBYE
  | TT_HASA
  | TT_HASAN
  | TT_ITZA
  | TT_ITZ
  | TT_RNOOB
  | TT_R
  | TT_ANYR
  | TT_AN
  | TT_SUMOF
  | TT_DIFFOF
  | TT_PRODUKTOF
  | TT_QUOSHUNTOF
  | TT_MODOF
  | TT_BIGGROF
  | TT_SMALLROF
  | TT_BOTHOF
  | TT_EITHEROF
  | TT_WONOF
  | TT_NOT
  | TT_MKAY
  | TT_ALLOF
  | TT_ANYOF
  | TT_BOTHSAEM
  | TT_DIFFRINT
  | TT_MAEK
  | TT_A
  | TT_ISNOWA
  | TT_VISIBLE
  | TT_INVISIBLE
  | TT_SMOOSH
  | TT_BANG
  | TT_GIMMEH
  | TT_ORLY
  | TT_YARLY
  | TT_MEBBE
  | TT_NOWAI
  | TT_OIC
  | TT_WTF
  | TT_OMG
  | TT_OMGWTF
  | TT_GTFO
  | TT_IMINYR
  | TT_UPPIN
  | TT_NERFIN
  | TT_YR
  | TT_TIL
  | TT_WILE
  | TT_IMOUTTAYR
  | TT_HOWIZ
  | TT_IZ
  | TT_IFUSAYSO
  | TT_FOUNDYR
  | TT_SRS
  | TT_APOSTROPHEZ
  | TT_OHAIIM
  | TT_IMLIEK
  | TT_KTHX
  | TT_ENDOFTOKENS

text \<open>
  C numbers the enumerators from zero in the order of declaration: \<open>TokenTypes\<close> lists
  them in that order and \<open>enum_value\<close> is the position of a kind in it.
\<close>

definition TokenTypes :: "TokenType list" where
  "TokenTypes =
    [TT_INTEGER, TT_FLOAT, TT_STRING, TT_IDENTIFIER, TT_BOOLEAN, TT_IT, TT_ITZLIEKA,
     TT_NOOB, TT_NUMBR, TT_NUMBAR, TT_TROOF, TT_YARN, TT_BUKKIT, TT_EOF, TT_NEWLINE,
     TT_HAI, TT_KTHXBYE, TT_HASA, TT_HASAN, TT_ITZA, TT_ITZ, TT_RNOOB, TT_R, TT_ANYR,
     TT_AN, TT_SUMOF, TT_DIFFOF, TT_PRODUKTOF, TT_QUOSHUNTOF, TT_MODOF, TT_BIGGROF,
     TT_SMALLROF, TT_BOTHOF, TT_EITHEROF, TT_WONOF, TT_NOT, TT_MKAY, TT_ALLOF, TT_ANYOF,
     TT_BOTHSAEM, TT_DIFFRINT, TT_MAEK, TT_A, TT_ISNOWA, TT_VISIBLE, TT_INVISIBLE,
     TT_SMOOSH, TT_BANG, TT_GIMMEH, TT_ORLY, TT_YARLY, TT_MEBBE, TT_NOWAI, TT_OIC, TT_WTF,
     TT_OMG, TT_OMGWTF, TT_GTFO, TT_IMINYR, TT_UPPIN, TT_NERFIN, TT_YR, TT_TIL, TT_WILE,
     TT_IMOUTTAYR, TT_HOWIZ, TT_IZ, TT_IFUSAYSO, TT_FOUNDYR, TT_SRS, TT_APOSTROPHEZ,
     TT_OHAIIM, TT_IMLIEK, TT_KTHX, TT_ENDOFTOKENS]"

definition enum_value :: "TokenType \<Rightarrow> nat" where
  "enum_value t = length (takeWhile (\<lambda>u. u \<noteq> t) TokenTypes)"

text \<open>
  The array \<open>keywords\<close> (tokenizer.h, lines 113-189). A C string literal is the byte
  sequence of the source file, which is encoded in UTF-8: every phrase is given byte by
  byte, with the code points it encodes noted beside it (SP is the space, 0x20).
\<close>

definition keywords_arr :: "string list" where
  "keywords_arr = [
    \<comment> \<open>TT_INTEGER\<close>
    '''',
    \<comment> \<open>TT_FLOAT\<close>
    '''',
    \<comment> \<open>TT_STRING\<close>
    '''',
    \<comment> \<open>TT_IDENTIFIER\<close>
    '''',
    \<comment> \<open>TT_BOOLEAN\<close>
    '''',
    \<comment> \<open>TT_IT: U+0924 U+093E U+091C U+093C U+093E\<close>
    [CHR 0xE0, CHR 0xA4, CHR 0xA4, CHR 0xE0, CHR 0xA4, CHR 0xBE, CHR 0xE0, CHR 0xA4,
     CHR 0x9C, CHR 0xE0, CHR 0xA4, CHR 0xBC, CHR 0xE0, CHR 0xA4, CHR 0xBE],
    \<comment> \<open>TT_ITZLIEKA: U+091B U+093E U+092A U+094B U+0902\<close>
    [CHR 0xE0, CHR 0xA4, CHR 0x9B, CHR 0xE0, CHR 0xA4, CHR 0xBE, CHR 0xE0, CHR 0xA4,
     CHR 0xAA, CHR 0xE0, CHR 0xA5, CHR 0x8B, CHR 0xE0, CHR 0xA4, CHR 0x82],
    \<comment> \<open>TT_NOOB: U+0916 U+093E U+0932 U+0940\<close>
    [CHR 0xE0, CHR 0xA4, CHR 0x96, CHR 0xE0, CHR 0xA4, CHR 0xBE, CHR 0xE0, CHR 0xA4,
     CHR 0xB2, CHR 0xE0, CHR 0xA5, CHR 0x80],
    \<comment> \<open>TT_NUMBR: U+0938 U+0902 U+0916 U+094D U+092F U+093E\<close>
    [CHR 0xE0, CHR 0xA4, CHR 0xB8, CHR 0xE0, CHR 0xA4, CHR 0x82, CHR 0xE0, CHR 0xA4,
     CHR 0x96, CHR 0xE0, CHR 0xA5, CHR 0x8D, CHR 0xE0, CHR 0xA4, CHR 0xAF, CHR 0xE0,
     CHR 0xA4, CHR 0xBE],
    \<comment> \<open>TT_NUMBAR: U+0926 U+0936 U+092E U+0932 U+0935\<close>
    [CHR 0xE0, CHR 0xA4, CHR 0xA6, CHR 0xE0, CHR 0xA4, CHR 0xB6, CHR 0xE0, CHR 0xA4,
     CHR 0xAE, CHR 0xE0, CHR 0xA4, CHR 0xB2, CHR 0xE0, CHR 0xA4, CHR 0xB5],
    \<comment> \<open>TT_TROOF: U+0939 U+093E U+0928 U+093E\<close>
    [CHR 0xE0, CHR 0xA4, CHR 0xB9, CHR 0xE0, CHR 0xA4, CHR 0xBE, CHR 0xE0, CHR 0xA4,
     CHR 0xA8, CHR 0xE0, CHR 0xA4, CHR 0xBE],
    \<comment> \<open>TT_YARN: U+0905 U+0915 U+094D U+0937 U+0930 U+092E U+093E U+0932 U+093E\<close>
    [CHR 0xE0, CHR 0xA4, CHR 0x85, CHR 0xE0, CHR 0xA4, CHR 0x95, CHR 0xE0, CHR 0xA5,
     CHR 0x8D, CHR 0xE0, CHR 0xA4, CHR 0xB7, CHR 0xE0, CHR 0xA4, CHR 0xB0, CHR 0xE0,
     CHR 0xA4, CHR 0xAE, CHR 0xE0, CHR 0xA4, CHR 0xBE, CHR 0xE0, CHR 0xA4, CHR 0xB2,
     CHR 0xE0, CHR 0xA4, CHR 0xBE],
    \<comment> \<open>TT_BUKKIT: U+092E U+093E U+0932 U+093E\<close>
    [CHR 0xE0, CHR 0xA4, CHR 0xAE, CHR 0xE0, CHR 0xA4, CHR 0xBE, CHR 0xE0, CHR 0xA4,
     CHR 0xB2, CHR 0xE0, CHR 0xA4, CHR 0xBE],
    \<comment> \<open>TT_EOF\<close>
    '''',
    \<comment> \<open>TT_NEWLINE\<close>
    '''',
    \<comment> \<open>TT_HAI: U+0928 U+092E U+0938 U+094D U+0924 U+0947\<close>
    [CHR 0xE0, CHR 0xA4, CHR 0xA8, CHR 0xE0, CHR 0xA4, CHR 0xAE, CHR 0xE0, CHR 0xA4,
     CHR 0xB8, CHR 0xE0, CHR 0xA5, CHR 0x8D, CHR 0xE0, CHR 0xA4, CHR 0xA4, CHR 0xE0,
     CHR 0xA5, CHR 0x87],
    \<comment> \<open>TT_KTHXBYE: U+0905 U+0932 U+0935 U+093F U+0926 U+093E\<close>
    [CHR 0xE0, CHR 0xA4, CHR 0x85, CHR 0xE0, CHR 0xA4, CHR 0xB2, CHR 0xE0, CHR 0xA4,
     CHR 0xB5, CHR 0xE0, CHR 0xA4, CHR 0xBF, CHR 0xE0, CHR 0xA4, CHR 0xA6, CHR 0xE0,
     CHR 0xA4, CHR 0xBE],
    \<comment> \<open>TT_HASA: U+091A U+0940 U+091C U+093C\<close>
    [CHR 0xE0, CHR 0xA4, CHR 0x9A, CHR 0xE0, CHR 0xA5, CHR 0x80, CHR 0xE0, CHR 0xA4,
     CHR 0x9C, CHR 0xE0, CHR 0xA4, CHR 0xBC],
    \<comment> \<open>TT_HASAN: U+091A U+0940 U+091C U+093C\<close>
    [CHR 0xE0, CHR 0xA4, CHR 0x9A, CHR 0xE0, CHR 0xA5, CHR 0x80, CHR 0xE0, CHR 0xA4,
     CHR 0x9C, CHR 0xE0, CHR 0xA4, CHR 0xBC],
    \<comment> \<open>TT_ITZA: U+0939 U+0948 SP U+090F U+0915\<close>
    [CHR 0xE0, CHR 0xA4, CHR 0xB9, CHR 0xE0, CHR 0xA5, CHR 0x88, CHR 0x20, CHR 0xE0,
     CHR 0xA4, CHR 0x8F, CHR 0xE0, CHR 0xA4, CHR 0x95],
    \<comment> \<open>TT_ITZ: U+0939 U+0948\<close>
    [CHR 0xE0, CHR 0xA4, CHR 0xB9, CHR 0xE0, CHR 0xA5, CHR 0x88],
    \<comment> \<open>TT_RNOOB: U+0939 U+0948 SP U+0916 U+093E U+0932 U+0940\<close>
    [CHR 0xE0, CHR 0xA4, CHR 0xB9, CHR 0xE0, CHR 0xA5, CHR 0x88, CHR 0x20, CHR 0xE0,
     CHR 0xA4, CHR 0x96, CHR 0xE0, CHR 0xA4, CHR 0xBE, CHR 0xE0, CHR 0xA4, CHR 0xB2,
     CHR 0xE0, CHR 0xA5, CHR 0x80],
    \<comment> \<open>TT_R: U+0905 U+092C SP U+0939 U+0948\<close>
    [CHR 0xE0, CHR 0xA4, CHR 0x85, CHR 0xE0, CHR 0xA4, CHR 0xAC, CHR 0x20, CHR 0xE0,
     CHR 0xA4, CHR 0xB9, CHR 0xE0, CHR 0xA5, CHR 0x88],
    \<comment> \<open>TT_ANYR: U+0914 U+0930 SP U+091C U+093E U+0928 U+0915 U+093E U+0930 U+0940\<close>
    [CHR 0xE0, CHR 0xA4, CHR 0x94, CHR 0xE0, CHR 0xA4, CHR 0xB0, CHR 0x20, CHR 0xE0,
     CHR 0xA4, CHR 0x9C, CHR 0xE0, CHR 0xA4, CHR 0xBE, CHR 0xE0, CHR 0xA4, CHR 0xA8,
     CHR 0xE0, CHR 0xA4, CHR 0x95, CHR 0xE0, CHR 0xA4, CHR 0xBE, CHR 0xE0, CHR 0xA4,
     CHR 0xB0, CHR 0xE0, CHR 0xA5, CHR 0x80],
    \<comment> \<open>TT_AN: U+0914 U+0930\<close>
    [CHR 0xE0, CHR 0xA4, CHR 0x94, CHR 0xE0, CHR 0xA4, CHR 0xB0],
    \<comment> \<open>TT_SUMOF: U+091C U+094B U+0921 U+093C\<close>
    [CHR 0xE0, CHR 0xA4, CHR 0x9C, CHR 0xE0, CHR 0xA5, CHR 0x8B, CHR 0xE0, CHR 0xA4,
     CHR 0xA1, CHR 0xE0, CHR 0xA4, CHR 0xBC],
    \<comment> \<open>TT_DIFFOF: U+0918 U+093E U+091F U+093E\<close>
    [CHR 0xE0, CHR 0xA4, CHR 0x98, CHR 0xE0, CHR 0xA4, CHR 0xBE, CHR 0xE0, CHR 0xA4,
     CHR 0x9F, CHR 0xE0, CHR 0xA4, CHR 0xBE],
    \<comment> \<open>TT_PRODUKTOF: U+0917 U+0941 U+0923 U+093E\<close>
    [CHR 0xE0, CHR 0xA4, CHR 0x97, CHR 0xE0, CHR 0xA5, CHR 0x81, CHR 0xE0, CHR 0xA4,
     CHR 0xA3, CHR 0xE0, CHR 0xA4, CHR 0xBE],
    \<comment> \<open>TT_QUOSHUNTOF: U+092D U+093E U+0917\<close>
    [CHR 0xE0, CHR 0xA4, CHR 0xAD, CHR 0xE0, CHR 0xA4, CHR 0xBE, CHR 0xE0, CHR 0xA4,
     CHR 0x97],
    \<comment> \<open>TT_MODOF: U+092C U+093E U+0915 U+0940\<close>
    [CHR 0xE0, CHR 0xA4, CHR 0xAC, CHR 0xE0, CHR 0xA4, CHR 0xBE, CHR 0xE0, CHR 0xA4,
     CHR 0x95, CHR 0xE0, CHR 0xA5, CHR 0x80],
    \<comment> \<open>TT_BIGGROF: U+092C U+0921 U+093C U+093E\<close>
    [CHR 0xE0, CHR 0xA4, CHR 0xAC, CHR 0xE0, CHR 0xA4, CHR 0xA1, CHR 0xE0, CHR 0xA4,
     CHR 0xBC, CHR 0xE0, CHR 0xA4, CHR 0xBE],
    \<comment> \<open>TT_SMALLROF: U+091B U+094B U+091F U+093E\<close>
    [CHR 0xE0, CHR 0xA4, CHR 0x9B, CHR 0xE0, CHR 0xA5, CHR 0x8B, CHR 0xE0, CHR 0xA4,
     CHR 0x9F, CHR 0xE0, CHR 0xA4, CHR 0xBE],
    \<comment> \<open>TT_BOTHOF: U+0926 U+094B U+0928 U+094B U+0902\<close>
    [CHR 0xE0, CHR 0xA4, CHR 0xA6, CHR 0xE0, CHR 0xA5, CHR 0x8B, CHR 0xE0, CHR 0xA4,
     CHR 0xA8, CHR 0xE0, CHR 0xA5, CHR 0x8B, CHR 0xE0, CHR 0xA4, CHR 0x82],
    \<comment> \<open>TT_EITHEROF: U+0915 U+094B U+0908 SP U+090F U+0915\<close>
    [CHR 0xE0, CHR 0xA4, CHR 0x95, CHR 0xE0, CHR 0xA5, CHR 0x8B, CHR 0xE0, CHR 0xA4,
     CHR 0x88, CHR 0x20, CHR 0xE0, CHR 0xA4, CHR 0x8F, CHR 0xE0, CHR 0xA4, CHR 0x95],
    \<comment> \<open>TT_WONOF: U+0938 U+093F U+0930 U+094D U+092B U+093C SP U+090F U+0915\<close>
    [CHR 0xE0, CHR 0xA4, CHR 0xB8, CHR 0xE0, CHR 0xA4, CHR 0xBF, CHR 0xE0, CHR 0xA4,
     CHR 0xB0, CHR 0xE0, CHR 0xA5, CHR 0x8D, CHR 0xE0, CHR 0xA4, CHR 0xAB, CHR 0xE0,
     CHR 0xA4, CHR 0xBC, CHR 0x20, CHR 0xE0, CHR 0xA4, CHR 0x8F, CHR 0xE0, CHR 0xA4,
     CHR 0x95],
    \<comment> \<open>TT_NOT: U+0928 U+0939 U+0940 U+0902\<close>
    [CHR 0xE0, CHR 0xA4, CHR 0xA8, CHR 0xE0, CHR 0xA4, CHR 0xB9, CHR 0xE0, CHR 0xA5,
     CHR 0x80, CHR 0xE0, CHR 0xA4, CHR 0x82],
    \<comment> \<open>TT_MKAY: U+092C U+0938\<close>
    [CHR 0xE0, CHR 0xA4, CHR 0xAC, CHR 0xE0, CHR 0xA4, CHR 0xB8],
    \<comment> \<open>TT_ALLOF: U+0938 U+092C\<close>
    [CHR 0xE0, CHR 0xA4, CHR 0xB8, CHR 0xE0, CHR 0xA4, CHR 0xAC],
    \<comment> \<open>TT_ANYOF: U+0915 U+0941 U+091B\<close>
    [CHR 0xE0, CHR 0xA4, CHR 0x95, CHR 0xE0, CHR 0xA5, CHR 0x81, CHR 0xE0, CHR 0xA4,
     CHR 0x9B],
    \<comment> \<open>TT_BOTHSAEM: U+092C U+0930 U+093E U+092C U+0930\<close>
    [CHR 0xE0, CHR 0xA4, CHR 0xAC, CHR 0xE0, CHR 0xA4, CHR 0xB0, CHR 0xE0, CHR 0xA4,
     CHR 0xBE, CHR 0xE0, CHR 0xA4, CHR 0xAC, CHR 0xE0, CHR 0xA4, CHR 0xB0],
    \<comment> \<open>TT_DIFFRINT: U+0905 U+0932 U+0917\<close>
    [CHR 0xE0, CHR 0xA4, CHR 0x85, CHR 0xE0, CHR 0xA4, CHR 0xB2, CHR 0xE0, CHR 0xA4,
     CHR 0x97],
    \<comment> \<open>TT_MAEK: U+092C U+0928 U+093E U+0913\<close>
    [CHR 0xE0, CHR 0xA4, CHR 0xAC, CHR 0xE0, CHR 0xA4, CHR 0xA8, CHR 0xE0, CHR 0xA4,
     CHR 0xBE, CHR 0xE0, CHR 0xA4, CHR 0x93],
    \<comment> \<open>TT_A: U+090F U+0915\<close>
    [CHR 0xE0, CHR 0xA4, CHR 0x8F, CHR 0xE0, CHR 0xA4, CHR 0x95],
    \<comment> \<open>TT_ISNOWA: U+0905 U+092C SP U+092C U+0928 SP U+0917 U+092F U+093E\<close>
    [CHR 0xE0, CHR 0xA4, CHR 0x85, CHR 0xE0, CHR 0xA4, CHR 0xAC, CHR 0x20, CHR 0xE0,
     CHR 0xA4, CHR 0xAC, CHR 0xE0, CHR 0xA4, CHR 0xA8, CHR 0x20, CHR 0xE0, CHR 0xA4,
     CHR 0x97, CHR 0xE0, CHR 0xA4, CHR 0xAF, CHR 0xE0, CHR 0xA4, CHR 0xBE],
    \<comment> \<open>TT_VISIBLE: U+0926 U+093F U+0916 U+093E U+0913\<close>
    [CHR 0xE0, CHR 0xA4, CHR 0xA6, CHR 0xE0, CHR 0xA4, CHR 0xBF, CHR 0xE0, CHR 0xA4,
     CHR 0x96, CHR 0xE0, CHR 0xA4, CHR 0xBE, CHR 0xE0, CHR 0xA4, CHR 0x93],
    \<comment> \<open>TT_INVISIBLE: U+0917 U+0932 U+0924 U+0940\<close>
    [CHR 0xE0, CHR 0xA4, CHR 0x97, CHR 0xE0, CHR 0xA4, CHR 0xB2, CHR 0xE0, CHR 0xA4,
     CHR 0xA4, CHR 0xE0, CHR 0xA5, CHR 0x80],
    \<comment> \<open>TT_SMOOSH: U+091C U+094B U+0921 U+093C U+094B\<close>
    [CHR 0xE0, CHR 0xA4, CHR 0x9C, CHR 0xE0, CHR 0xA5, CHR 0x8B, CHR 0xE0, CHR 0xA4,
     CHR 0xA1, CHR 0xE0, CHR 0xA4, CHR 0xBC, CHR 0xE0, CHR 0xA5, CHR 0x8B],
    \<comment> \<open>TT_BANG\<close>
    ''!'',
    \<comment> \<open>TT_GIMMEH: U+0926 U+094B\<close>
    [CHR 0xE0, CHR 0xA4, CHR 0xA6, CHR 0xE0, CHR 0xA5, CHR 0x8B],
    \<comment> \<open>TT_ORLY: U+0915 U+094D U+092F U+093E U+003F\<close>
    [CHR 0xE0, CHR 0xA4, CHR 0x95, CHR 0xE0, CHR 0xA5, CHR 0x8D, CHR 0xE0, CHR 0xA4,
     CHR 0xAF, CHR 0xE0, CHR 0xA4, CHR 0xBE, CHR 0x3F],
    \<comment> \<open>TT_YARLY: U+0939 U+093E U+0901\<close>
    [CHR 0xE0, CHR 0xA4, CHR 0xB9, CHR 0xE0, CHR 0xA4, CHR 0xBE, CHR 0xE0, CHR 0xA4,
     CHR 0x81],
    \<comment> \<open>TT_MEBBE: U+092F U+093E SP U+092B U+093F U+0930\<close>
    [CHR 0xE0, CHR 0xA4, CHR 0xAF, CHR 0xE0, CHR 0xA4, CHR 0xBE, CHR 0x20, CHR 0xE0,
     CHR 0xA4, CHR 0xAB, CHR 0xE0, CHR 0xA4, CHR 0xBF, CHR 0xE0, CHR 0xA4, CHR 0xB0],
    \<comment> \<open>TT_NOWAI: U+0928 U+093E\<close>
    [CHR 0xE0, CHR 0xA4, CHR 0xA8, CHR 0xE0, CHR 0xA4, CHR 0xBE],
    \<comment> \<open>TT_OIC: U+0905 U+0902 U+0924\<close>
    [CHR 0xE0, CHR 0xA4, CHR 0x85, CHR 0xE0, CHR 0xA4, CHR 0x82, CHR 0xE0, CHR 0xA4,
     CHR 0xA4],
    \<comment> \<open>TT_WTF: U+092A U+0947 U+0921 U+093C\<close>
    [CHR 0xE0, CHR 0xA4, CHR 0xAA, CHR 0xE0, CHR 0xA5, CHR 0x87, CHR 0xE0, CHR 0xA4,
     CHR 0xA1, CHR 0xE0, CHR 0xA4, CHR 0xBC],
    \<comment> \<open>TT_OMG: U+0936 U+093E U+0916 U+093E\<close>
    [CHR 0xE0, CHR 0xA4, CHR 0xB6, CHR 0xE0, CHR 0xA4, CHR 0xBE, CHR 0xE0, CHR 0xA4,
     CHR 0x96, CHR 0xE0, CHR 0xA4, CHR 0xBE],
    \<comment> \<open>TT_OMGWTF: U+0928 U+0939 U+0940 SP U+0924 U+094B\<close>
    [CHR 0xE0, CHR 0xA4, CHR 0xA8, CHR 0xE0, CHR 0xA4, CHR 0xB9, CHR 0xE0, CHR 0xA5,
     CHR 0x80, CHR 0x20, CHR 0xE0, CHR 0xA4, CHR 0xA4, CHR 0xE0, CHR 0xA5, CHR 0x8B],
    \<comment> \<open>TT_GTFO: U+0924 U+094B U+095C U+094B\<close>
    [CHR 0xE0, CHR 0xA4, CHR 0xA4, CHR 0xE0, CHR 0xA5, CHR 0x8B, CHR 0xE0, CHR 0xA5,
     CHR 0x9C, CHR 0xE0, CHR 0xA5, CHR 0x8B],
    \<comment> \<open>TT_IMINYR: U+0936 U+0941 U+0930 U+0942 SP U+0915 U+0930 U+094B\<close>
    [CHR 0xE0, CHR 0xA4, CHR 0xB6, CHR 0xE0, CHR 0xA5, CHR 0x81, CHR 0xE0, CHR 0xA4,
     CHR 0xB0, CHR 0xE0, CHR 0xA5, CHR 0x82, CHR 0x20, CHR 0xE0, CHR 0xA4, CHR 0x95,
     CHR 0xE0, CHR 0xA4, CHR 0xB0, CHR 0xE0, CHR 0xA5, CHR 0x8B],
    \<comment> \<open>TT_UPPIN: U+092C U+095D U+093E U+0913\<close>
    [CHR 0xE0, CHR 0xA4, CHR 0xAC, CHR 0xE0, CHR 0xA5, CHR 0x9D, CHR 0xE0, CHR 0xA4,
     CHR 0xBE, CHR 0xE0, CHR 0xA4, CHR 0x93],
    \<comment> \<open>TT_NERFIN: U+092C U+095D U+093E U+0913\<close>
    [CHR 0xE0, CHR 0xA4, CHR 0xAC, CHR 0xE0, CHR 0xA5, CHR 0x9D, CHR 0xE0, CHR 0xA4,
     CHR 0xBE, CHR 0xE0, CHR 0xA4, CHR 0x93],
    \<comment> \<open>TT_YR: U+092F U+0939\<close>
    [CHR 0xE0, CHR 0xA4, CHR 0xAF, CHR 0xE0, CHR 0xA4, CHR 0xB9],
    \<comment> \<open>TT_TIL: U+091C U+092C SP U+0924 U+0915 SP U+0928 U+0939 U+0940 U+0902\<close>
    [CHR 0xE0, CHR 0xA4, CHR 0x9C, CHR 0xE0, CHR 0xA4, CHR 0xAC, CHR 0x20, CHR 0xE0,
     CHR 0xA4, CHR 0xA4, CHR 0xE0, CHR 0xA4, CHR 0x95, CHR 0x20, CHR 0xE0, CHR 0xA4,
     CHR 0xA8, CHR 0xE0, CHR 0xA4, CHR 0xB9, CHR 0xE0, CHR 0xA5, CHR 0x80, CHR 0xE0,
     CHR 0xA4, CHR 0x82],
    \<comment> \<open>TT_WILE: U+091C U+092C SP U+0924 U+0915\<close>
    [CHR 0xE0, CHR 0xA4, CHR 0x9C, CHR 0xE0, CHR 0xA4, CHR 0xAC, CHR 0x20, CHR 0xE0,
     CHR 0xA4, CHR 0xA4, CHR 0xE0, CHR 0xA4, CHR 0x95],
    \<comment> \<open>TT_IMOUTTAYR: U+0916 U+0924 U+092E SP U+0915 U+0930 U+094B\<close>
    [CHR 0xE0, CHR 0xA4, CHR 0x96, CHR 0xE0, CHR 0xA4, CHR 0xA4, CHR 0xE0, CHR 0xA4,
     CHR 0xAE, CHR 0x20, CHR 0xE0, CHR 0xA4, CHR 0x95, CHR 0xE0, CHR 0xA4, CHR 0xB0,
     CHR 0xE0, CHR 0xA5, CHR 0x8B],
    \<comment> \<open>TT_HOWIZ: U+0915 U+093E U+092E\<close>
    [CHR 0xE0, CHR 0xA4, CHR 0x95, CHR 0xE0, CHR 0xA4, CHR 0xBE, CHR 0xE0, CHR 0xA4,
     CHR 0xAE],
    \<comment> \<open>TT_IZ: U+092C U+0941 U+0932 U+093E U+0913\<close>
    [CHR 0xE0, CHR 0xA4, CHR 0xAC, CHR 0xE0, CHR 0xA5, CHR 0x81, CHR 0xE0, CHR 0xA4,
     CHR 0xB2, CHR 0xE0, CHR 0xA4, CHR 0xBE, CHR 0xE0, CHR 0xA4, CHR 0x93],
    \<comment> \<open>TT_IFUSAYSO: U+0915 U+093E U+092E U+0916 U+0924 U+092E\<close>
    [CHR 0xE0, CHR 0xA4, CHR 0x95, CHR 0xE0, CHR 0xA4, CHR 0xBE, CHR 0xE0, CHR 0xA4,
     CHR 0xAE, CHR 0xE0, CHR 0xA4, CHR 0x96, CHR 0xE0, CHR 0xA4, CHR 0xA4, CHR 0xE0,
     CHR 0xA4, CHR 0xAE],
    \<comment> \<open>TT_FOUNDYR: U+0935 U+093E U+092A U+0938\<close>
    [CHR 0xE0, CHR 0xA4, CHR 0xB5, CHR 0xE0, CHR 0xA4, CHR 0xBE, CHR 0xE0, CHR 0xA4,
     CHR 0xAA, CHR 0xE0, CHR 0xA4, CHR 0xB8],
    \<comment> \<open>TT_SRS: U+0938 U+0930 U+0938\<close>
    [CHR 0xE0, CHR 0xA4, CHR 0xB8, CHR 0xE0, CHR 0xA4, CHR 0xB0, CHR 0xE0, CHR 0xA4,
     CHR 0xB8],
    \<comment> \<open>TT_APOSTROPHEZ: U+0027 U+0915 U+093E\<close>
    [CHR 0x27, CHR 0xE0, CHR 0xA4, CHR 0x95, CHR 0xE0, CHR 0xA4, CHR 0xBE],
    \<comment> \<open>TT_OHAIIM\<close>
    ''O HAI IM'',
    \<comment> \<open>TT_IMLIEK\<close>
    ''IM LIEK'',
    \<comment> \<open>TT_KTHX: U+0916 U+0924 U+092E\<close>
    [CHR 0xE0, CHR 0xA4, CHR 0x96, CHR 0xE0, CHR 0xA4, CHR 0xA4, CHR 0xE0, CHR 0xA4,
     CHR 0xAE],
    \<comment> \<open>TT_ENDOFTOKENS\<close>
    ''''
  ]"

text \<open>\<open>keywords[type]\<close>: the array indexed by a token kind.\<close>

definition keyword :: "TokenType \<Rightarrow> string" where
  "keyword t = keywords_arr ! enum_value t"

text \<open>
  The union \<open>TokenData\<close> (lines 194-197) and the structure \<open>Token\<close> (lines 202-208).
  The union has the two members \<open>long long i\<close> and \<open>float f\<close>; the member in use is
  told by the token's kind, and a token of any other kind carries no value (\<open>None\<close>).
  The float is kept as its 32-bit pattern.
\<close>

datatype TokenData = Data_i "64 word" | Data_f "32 word"

record Token =
  type :: TokenType
  data :: "TokenData option"
  image :: string
  fname :: string
  line :: "32 word"

section \<open>Words of a phrase\<close>

text \<open>
  A phrase is cut into words at every space. \<open>joinWords\<close> is the converse: the words
  written one after the other with a single space between neighbours.
\<close>

fun phraseWords :: "string \<Rightarrow> string list" where
  "phraseWords [] = [[]]"
| "phraseWords (c # cs) =
     (if c = CHR '' '' then [] # phraseWords cs
      else (case phraseWords cs of [] \<Rightarrow> [[c]] | w # ws \<Rightarrow> (c # w) # ws))"

fun joinWords :: "string list \<Rightarrow> string" where
  "joinWords [] = []"
| "joinWords [w] = w"
| "joinWords (w # v # ws) = w @ CHR '' '' # joinWords (v # ws)"

text \<open>
  A word in the Devanagari script: the UTF-8 encoding of code points of the block
  U+0900 .. U+097F, that is, triples of bytes E0, A4 or A5, 80 .. BF.
\<close>

fun devanagariWord :: "string \<Rightarrow> bool" where
  "devanagariWord [] = True"
| "devanagariWord (a # b # c # r) =
     (a = CHR 0xE0 \<and> (b = CHR 0xA4 \<or> b = CHR 0xA5) \<and>
      (0x80::nat) \<le> of_char c \<and> of_char c \<le> (0xBF::nat) \<and> devanagariWord r)"
| "devanagariWord _ = False"

definition wordsOfPhrase :: "string \<Rightarrow> bool" where
  "wordsOfPhrase p = (phraseWords p \<noteq> [] \<and> list_all (\<lambda>w. w \<noteq> []) (phraseWords p))"

definition devanagariPhrase :: "string \<Rightarrow> bool" where
  "devanagariPhrase p = list_all devanagariWord (phraseWords p)"

section \<open>The tokenizer's functions\<close>

text \<open>
  tokenizer.h declares \<open>isInteger\<close>, \<open>isFloat\<close>, \<open>isString\<close>, \<open>isIdentifier\<close>,
  \<open>isKeyword\<close>, \<open>createToken\<close>, \<open>acceptLexemes\<close> and \<open>tokenizeLexemes\<close> (lines 216-242);
  their bodies, and the lexer's header with the type of a lexeme, are in files that are
  not part of the sources at hand. Each of them is therefore modelled from the
  specification, section by section, over the array \<open>keywords\<close> of tokenizer.h.
\<close>

text \<open>
  Modelled from the spec: the structure of a lexeme (lexer.h is missing). Section 3: an
  immutable record of text, source file name and line number.
\<close>

record Lexeme =
  ltext :: string
  lfname :: string
  lline :: "32 word"

subsection \<open>Literal classifiers (section 4.1)\<close>

text \<open>
  Modelled from the spec: the parts the shapes of section 4.1 are made of (the bodies of
  the classifiers are missing): a decimal digit, a letter, the optional leading minus
  sign, and a run of one or more digits.
\<close>

definition isDigitChar :: "char \<Rightarrow> bool" where
  "isDigitChar c = (c \<in> set ''0123456789'')"

definition isAlphaChar :: "char \<Rightarrow> bool" where
  "isAlphaChar c = (c \<in> set ''abcdefghijklmnopqrstuvwxyzABCDEFGHIJKLMNOPQRSTUVWXYZ'')"

definition dropMinus :: "string \<Rightarrow> string" where
  "dropMinus s = (case s of [] \<Rightarrow> [] | c # r \<Rightarrow> if c = CHR ''-'' then r else s)"

definition allDigits :: "string \<Rightarrow> bool" where
  "allDigits s = (s \<noteq> [] \<and> list_all isDigitChar s)"

text \<open>
  Modelled from the spec: the body of \<open>isInteger\<close> is missing. Section 4.1: an optional
  leading minus sign followed by one or more decimal digits, and nothing else.
\<close>

definition isInteger :: "string \<Rightarrow> bool" where
  "isInteger s = allDigits (dropMinus s)"

text \<open>
  Modelled from the spec: the body of \<open>isFloat\<close> is missing. Section 4.1: an optional
  leading minus sign, one or more digits, a single point, and one or more digits.
\<close>

definition isFloat :: "string \<Rightarrow> bool" where
  "isFloat s =
     (let r = dropMinus s in
      allDigits (takeWhile (\<lambda>c. c \<noteq> CHR ''.'') r) \<and>
      (case dropWhile (\<lambda>c. c \<noteq> CHR ''.'') r of [] \<Rightarrow> False | _ # d \<Rightarrow> allDigits d))"

text \<open>
  Modelled from the spec: "no unescaped embedded double quote" of section 4.1 (the body
  of \<open>isString\<close> is missing). The double quote is the byte 0x22. The specification
  does not name the escape character; the colon is taken, the escape character of
  LOLCODE strings, the language the specification says is adapted. An escape character
  and the character after it are skipped.
\<close>

fun noBareQuote :: "string \<Rightarrow> bool" where
  "noBareQuote [] = True"
| "noBareQuote [c] = (c \<noteq> CHR 0x22)"
| "noBareQuote (c # d # r) =
     (if c = CHR '':'' then noBareQuote r else c \<noteq> CHR 0x22 \<and> noBareQuote (d # r))"

text \<open>
  Modelled from the spec: the body of \<open>isString\<close> is missing. Section 4.1: the text
  begins and ends with a double quote and has no unescaped double quote in between.
\<close>

definition isString :: "string \<Rightarrow> bool" where
  "isString s =
     (2 \<le> length s \<and> hd s = CHR 0x22 \<and> last s = CHR 0x22 \<and> noBareQuote (butlast (tl s)))"

text \<open>
  Modelled from the spec: the body of \<open>isIdentifier\<close> is missing. Section 4.1: the text
  begins with a letter or an underscore, and the rest is letters, digits and
  underscores. The text is a C string, a sequence of bytes: the letters are the ASCII
  letters.
\<close>

definition isIdentifier :: "string \<Rightarrow> bool" where
  "isIdentifier s =
     (case s of
        [] \<Rightarrow> False
      | c # r \<Rightarrow> (isAlphaChar c \<or> c = CHR ''_'') \<and>
          list_all (\<lambda>d. isAlphaChar d \<or> isDigitChar d \<or> d = CHR ''_'') r)"

subsection \<open>Errors and the token factory (sections 4.5 and 7)\<close>

text \<open>
  Modelled from the spec: the error module (error.h) is missing. Section 7: three kinds
  of error, each reported with the offending text, the file name and the line number.
\<close>

datatype error =
    UnrecognizedLexeme string string "32 word"
  | NumericOverflow string string "32 word"
  | InternalInconsistency string string "32 word"

text \<open>
  Modelled from the spec: the integer a text of the integer shape denotes (section 4.5:
  the text is parsed as a signed integer, an optional leading minus sign decoded); the
  body of \<open>createToken\<close> is missing.
\<close>

definition decimalValue :: "string \<Rightarrow> int" where
  "decimalValue s =
     (let v = foldl (\<lambda>a c. 10 * a + (of_char c - 48)) 0 (dropMinus s) in
      if dropMinus s = s then v else - v)"

text \<open>
  Modelled from the spec: the body of \<open>createToken\<close> is missing. Section 4.5: an Integer
  token holds the value of its text as a signed 64-bit integer, and a value out of that
  range is an error; a Float token holds the decoded value, and a text that does not
  decode is an internal error; a token of any other kind stores its image and no
  value. The decoding of a decimal text to a C float is not modelled: it is the
  parameter \<open>decodeFloat\<close>, which gives the bit pattern, or \<open>None\<close> when the text does
  not decode.
\<close>

definition createToken ::
  "(string \<Rightarrow> 32 word option) \<Rightarrow> TokenType \<Rightarrow> string \<Rightarrow> string \<Rightarrow> 32 word \<Rightarrow> error + Token"
where
  "createToken decodeFloat k txt fn ln =
     (if k = TT_INTEGER then
        (let v = decimalValue txt in
         if - (2 ^ 63) \<le> v \<and> v < 2 ^ 63
         then Inr \<lparr>type = k, data = Some (Data_i (word_of_int v)), image = txt,
                   fname = fn, line = ln\<rparr>
         else Inl (NumericOverflow txt fn ln))
      else if k = TT_FLOAT then
        (case decodeFloat txt of
           Some w \<Rightarrow> Inr \<lparr>type = k, data = Some (Data_f w), image = txt,
                           fname = fn, line = ln\<rparr>
         | None \<Rightarrow> Inl (InternalInconsistency txt fn ln))
      else Inr \<lparr>type = k, data = None, image = txt, fname = fn, line = ln\<rparr>)"

subsection \<open>The lexeme-window matcher (section 4.3)\<close>

text \<open>
  Modelled from the spec: the text of a window (section 4.3), the texts of the \<open>n\<close>
  lexemes from index \<open>start\<close> on, joined with single spaces.
\<close>

definition windowText :: "Lexeme list \<Rightarrow> nat \<Rightarrow> nat \<Rightarrow> string" where
  "windowText ls start n = joinWords (map ltext (take n (drop start ls)))"

text \<open>
  Modelled from the spec: the body of \<open>acceptLexemes\<close> is missing. Section 4.3: the
  number of consecutive lexemes beginning at the index whose texts, concatenated with
  single-space separators in order, exactly equal the phrase; zero if there is no such
  match, also when the window would run past the end of the list. The windows tried
  are those of one lexeme or more that lie within the list.
\<close>

definition acceptLexemes :: "Lexeme list \<Rightarrow> nat \<Rightarrow> string \<Rightarrow> nat" where
  "acceptLexemes ls start phrase =
     (case find (\<lambda>n. windowText ls start n = phrase) [1..<Suc (length ls - start)] of
        None \<Rightarrow> 0
      | Some n \<Rightarrow> n)"

subsection \<open>The keyword recognizer (sections 4.2 and 4.4)\<close>

text \<open>
  Modelled from the spec: the table the recognizer scans. Section 4.2: one entry of
  kind and phrase per keyword kind, in a fixed order, the literal kinds and the two
  structural kinds left out. These are the entries of the array \<open>keywords\<close> with a
  phrase that is not empty, in the order of the array.
\<close>

definition keyword_table :: "(TokenType \<times> string) list" where
  "keyword_table = filter (\<lambda>e. snd e \<noteq> []) (zip TokenTypes keywords_arr)"

text \<open>
  Modelled from the spec: the scan of the table in \<open>isKeyword\<close> (section 4.4).
  \<open>best\<close> is the kind of the entry with the longest match so far and the length of
  that match; a later entry replaces it only with a strictly longer match.
\<close>

fun scanKeywords ::
  "Lexeme list \<Rightarrow> nat \<Rightarrow> (TokenType \<times> string) list \<Rightarrow> (TokenType \<times> nat) option
     \<Rightarrow> (TokenType \<times> nat) option"
where
  "scanKeywords ls start [] best = best"
| "scanKeywords ls start (e # es) best =
     (let n = acceptLexemes ls start (snd e) in
      scanKeywords ls start es
        (if 0 < n \<and> (case best of None \<Rightarrow> True | Some b \<Rightarrow> snd b < n)
         then Some (fst e, n) else best))"

text \<open>
  Modelled from the spec: the body of \<open>isKeyword\<close> is missing. Section 4.4: the table
  is scanned in order and the matcher is tried on every entry; the entry with the
  longest match wins, the first one among equals; no match at all is "no keyword"
  (\<open>None\<close>). On a match the result is a token of the winning kind, with the phrase as
  its image and the file name and line of the first lexeme of the window, and the
  number of lexemes consumed.
\<close>

definition isKeyword :: "Lexeme list \<Rightarrow> nat \<Rightarrow> (Token \<times> nat) option" where
  "isKeyword ls start =
     (case scanKeywords ls start keyword_table None of
        None \<Rightarrow> None
      | Some (k, n) \<Rightarrow>
          Some (\<lparr>type = k, data = None, image = keyword k,
                 fname = lfname (ls ! start), line = lline (ls ! start)\<rparr>, n))"

subsection \<open>The token stream builder (section 4.6)\<close>

text \<open>
  Modelled from the spec: the end-of-input token (sections 3 and 4.6). It is made by the
  builder and carries no source text; no lexeme gives it a file name or a line.
\<close>

definition eofToken :: Token where
  "eofToken = \<lparr>type = TT_EOF, data = None, image = [], fname = [], line = 0\<rparr>"

text \<open>
  Modelled from the spec: the literal kind of a text (step 3 of section 4.6), the four
  shapes tried in the order integer, float, string, identifier.
\<close>

definition literalKind :: "string \<Rightarrow> TokenType option" where
  "literalKind t =
     (if isInteger t then Some TT_INTEGER
      else if isFloat t then Some TT_FLOAT
      else if isString t then Some TT_STRING
      else if isIdentifier t then Some TT_IDENTIFIER
      else None)"

text \<open>
  Modelled from the spec: one step of the builder at a cursor inside the list (steps 2
  to 4 of section 4.6), with the token emitted and the number of lexemes the cursor
  advances by, or the error. The keyword recognizer is tried first. A boolean literal
  is recognised by exact text match (sections 3 and 4.5, and the opening comment of
  tokenizer.h); neither the specification nor the header gives the two spellings, so
  they are the parameter \<open>isBoolean\<close>, true of the admissible spellings. The token of
  a boolean keeps its spelling as image and carries no value: section 3 has a value
  exactly on Integer and Float tokens, and the union has no member for a boolean. A
  lexeme whose text is a line feed becomes a token of the newline kind (the last
  paragraph of section 4.6). Then the literal shapes are tried; any other lexeme is an
  error.
\<close>

definition tokenStep ::
  "(string \<Rightarrow> bool) \<Rightarrow> (string \<Rightarrow> 32 word option) \<Rightarrow> Lexeme list \<Rightarrow> nat
     \<Rightarrow> error + (Token \<times> nat)"
where
  "tokenStep isBoolean decodeFloat ls cur =
     (case isKeyword ls cur of
        Some r \<Rightarrow> Inr r
      | None \<Rightarrow>
          (let lx = ls ! cur in
           if isBoolean (ltext lx)
           then Inr (\<lparr>type = TT_BOOLEAN, data = None, image = ltext lx,
                      fname = lfname lx, line = lline lx\<rparr>, 1)
           else if ltext lx = [CHR 0x0A]
           then Inr (\<lparr>type = TT_NEWLINE, data = None, image = ltext lx,
                      fname = lfname lx, line = lline lx\<rparr>, 1)
           else
             (case literalKind (ltext lx) of
                None \<Rightarrow> Inl (UnrecognizedLexeme (ltext lx) (lfname lx) (lline lx))
              | Some k \<Rightarrow>
                  (case createToken decodeFloat k (ltext lx) (lfname lx) (lline lx) of
                     Inl e \<Rightarrow> Inl e
                   | Inr tok \<Rightarrow> Inr (tok, 1)))))"

lemma scanKeywords_positive:
  "scanKeywords ls start es best = Some r \<Longrightarrow> (\<forall>b. best = Some b \<longrightarrow> 0 < snd b) \<Longrightarrow> 0 < snd r"
  by (induction es arbitrary: best) (auto simp add: Let_def split: if_splits)

lemma tokenStep_advances: "tokenStep isBoolean decodeFloat ls cur = Inr (tok, n) \<Longrightarrow> 0 < n"
  by (auto simp add: tokenStep_def isKeyword_def Let_def
      split: option.splits if_splits sum.splits prod.splits
      dest!: scanKeywords_positive)

text \<open>
  Modelled from the spec: the scan from a cursor on (section 4.6). At or past the end of
  the list the end-of-input token is emitted and the scan is done; otherwise one step
  is made, an error of the step ends the scan with that error and no token list, and a
  token is emitted before the tokens of the rest.
\<close>

function scanLexemes ::
  "(string \<Rightarrow> bool) \<Rightarrow> (string \<Rightarrow> 32 word option) \<Rightarrow> Lexeme list \<Rightarrow> nat
     \<Rightarrow> error + Token list"
where
  "scanLexemes isBoolean decodeFloat ls cur =
     (if length ls \<le> cur then Inr [eofToken]
      else
        (case tokenStep isBoolean decodeFloat ls cur of
           Inl e \<Rightarrow> Inl e
         | Inr r \<Rightarrow>
             (case scanLexemes isBoolean decodeFloat ls (cur + snd r) of
                Inl e \<Rightarrow> Inl e
              | Inr toks \<Rightarrow> Inr (fst r # toks))))"
  by pat_completeness auto
termination
proof (relation "measure (\<lambda>(isBoolean, decodeFloat, ls, cur). length ls - cur)")
  show "wf (measure (\<lambda>(isBoolean, decodeFloat, ls, cur). length ls - cur))"
    by simp
next
  fix isBoolean :: "string \<Rightarrow> bool" and decodeFloat :: "string \<Rightarrow> 32 word option"
    and ls :: "Lexeme list" and cur :: nat and r :: "Token \<times> nat"
  assume inside: "\<not> length ls \<le> cur" and step: "tokenStep isBoolean decodeFloat ls cur = Inr r"
  from step have "0 < snd r"
    using tokenStep_advances [of isBoolean decodeFloat ls cur "fst r" "snd r"] by simp
  with inside
  show "((isBoolean, decodeFloat, ls, cur + snd r), (isBoolean, decodeFloat, ls, cur))
      \<in> measure (\<lambda>(isBoolean, decodeFloat, ls, cur). length ls - cur)"
    by simp
qed

declare scanLexemes.simps [simp del]

text \<open>
  Modelled from the spec: the body of \<open>tokenizeLexemes\<close> is missing. Section 4.6: the
  scan starts with the cursor at index 0; the result is the token list, or the error
  and no token list.
\<close>

definition tokenizeLexemes ::
  "(string \<Rightarrow> bool) \<Rightarrow> (string \<Rightarrow> 32 word option) \<Rightarrow> Lexeme list \<Rightarrow> error + Token list"
where
  "tokenizeLexemes isBoolean decodeFloat ls = scanLexemes isBoolean decodeFloat ls 0"

subsection \<open>Notions the claims are stated with\<close>

text \<open>
  Modelled from the spec: the longest match, the first among equals (section 4.4).
  Entry \<open>j\<close> of the table \<open>es\<close>, of kind \<open>k\<close>, wins at the index \<open>start\<close> with \<open>n\<close>
  lexemes: its phrase matches there with \<open>n\<close> lexemes, no entry of the table matches
  with more, and every entry before it matches with fewer.
\<close>

definition winsAt ::
  "Lexeme list \<Rightarrow> nat \<Rightarrow> (TokenType \<times> string) list \<Rightarrow> nat \<Rightarrow> TokenType \<Rightarrow> nat \<Rightarrow> bool" where
  "winsAt ls start es j k n \<longleftrightarrow>
     j < length es \<and> fst (es ! j) = k \<and> acceptLexemes ls start (snd (es ! j)) = n \<and> 0 < n \<and>
     (\<forall>i<length es. acceptLexemes ls start (snd (es ! i)) \<le> n) \<and>
     (\<forall>i<j. acceptLexemes ls start (snd (es ! i)) < n)"


text \<open>
  Inputs the claims are tried on. \<open>ex_booleans\<close> is a sample pair of boolean spellings,
  those of LOLCODE; \<open>ex_decodeFloat\<close> is a sample decoder that knows one text, 3.5
  with the bit pattern of the single-precision 3.5.
\<close>

definition ex_booleans :: "string \<Rightarrow> bool" where
  "ex_booleans t = (t = ''WIN'' \<or> t = ''FAIL'')"



definition ex_hai_ek :: "Lexeme list" where
  "ex_hai_ek =
     [\<lparr>ltext = [CHR 0xE0, CHR 0xA4, CHR 0xB9, CHR 0xE0, CHR 0xA5, CHR 0x88],
       lfname = ''a.lol'', lline = 3\<rparr>,
      \<lparr>ltext = [CHR 0xE0, CHR 0xA4, CHR 0x8F, CHR 0xE0, CHR 0xA4, CHR 0x95],
       lfname = ''a.lol'', lline = 3\<rparr>]"

definition ex_line :: "Lexeme list" where
  "ex_line =
     [\<lparr>ltext = [CHR 0xE0, CHR 0xA4, CHR 0xB9, CHR 0xE0, CHR 0xA5, CHR 0x88],
       lfname = ''a.lol'', lline = 3\<rparr>,
      \<lparr>ltext = [CHR 0xE0, CHR 0xA4, CHR 0x8F, CHR 0xE0, CHR 0xA4, CHR 0x95],
       lfname = ''a.lol'', lline = 3\<rparr>,
      \<lparr>ltext = ''-7'', lfname = ''a.lol'', lline = 3\<rparr>,
      \<lparr>ltext = [CHR 0x0A], lfname = ''a.lol'', lline = 3\<rparr>]"

section \<open>Facts about the enumeration and the array\<close>

lemma enum_value_TokenTypes: "map enum_value TokenTypes = [0..<75]"
  unfolding enum_value_def TokenTypes_def by (simp add: upt_rec)

lemma TokenTypes_UNIV: "set TokenTypes = UNIV"
proof (rule set_eqI)
  fix t :: TokenType
  show "t \<in> set TokenTypes \<longleftrightarrow> t \<in> UNIV"
    by (cases t; simp add: TokenTypes_def)
qed

lemma TokenTypes_distinct: "distinct TokenTypes"
  by (simp add: TokenTypes_def)

lemma keyword_TokenTypes: "map keyword TokenTypes = keywords_arr"
  unfolding keyword_def enum_value_def TokenTypes_def keywords_arr_def by simp

lemma all_kinds: "(\<forall>t. P t) \<longleftrightarrow> list_all P TokenTypes"
  using TokenTypes_UNIV by (auto simp add: list_all_iff)

lemma length_keywords_arr: "length keywords_arr = 75"
  by (simp add: keywords_arr_def)

lemma enum_value_bij: "bij_betw enum_value UNIV {..<length keywords_arr}"
proof -
  have "distinct (map enum_value TokenTypes)"
    by (simp add: enum_value_TokenTypes)
  then have "inj_on enum_value (set TokenTypes)"
    by (simp add: distinct_map)
  moreover have "enum_value ` set TokenTypes = {..<length keywords_arr}"
  proof -
    have "enum_value ` set TokenTypes = set (map enum_value TokenTypes)" by simp
    also have "\<dots> = {..<75}" unfolding enum_value_TokenTypes by auto
    finally show ?thesis by (simp add: length_keywords_arr)
  qed
  ultimately show ?thesis
    by (simp add: bij_betw_def TokenTypes_UNIV)
qed

lemma keyword_empty_kinds:
  "list_all (\<lambda>t. keyword t = [] \<longleftrightarrow>
      t \<in> {TT_INTEGER, TT_FLOAT, TT_STRING, TT_IDENTIFIER, TT_BOOLEAN, TT_EOF, TT_NEWLINE,
           TT_ENDOFTOKENS}) TokenTypes"
  unfolding keyword_def enum_value_def TokenTypes_def keywords_arr_def by simp

lemma keyword_script_kinds:
  "list_all (\<lambda>t. keyword t \<noteq> [] \<longrightarrow>
      wordsOfPhrase (keyword t) \<and>
      (t \<notin> {TT_OHAIIM, TT_IMLIEK} \<longrightarrow>
         (devanagariPhrase (keyword t) \<longleftrightarrow> t \<notin> {TT_BANG, TT_ORLY, TT_APOSTROPHEZ})))
     TokenTypes"
  unfolding keyword_def enum_value_def TokenTypes_def keywords_arr_def
    wordsOfPhrase_def devanagariPhrase_def
  by simp

section \<open>The keyword array: claims\<close>

text \<open>
  C3, as the claim states it, fails: the phrase of \<open>TT_ITZLIEKA\<close> is not a phrase of
  three words.
\<close>

theorem ITZLIEKA_not_three_words:
  "length (phraseWords (keyword TT_ITZLIEKA)) \<noteq> 3"
  unfolding keyword_def enum_value_def TokenTypes_def keywords_arr_def by simp

text \<open>
  C3, amended: in the keyword array the phrase of the inherited-object-declaration kind
  \<open>TT_ITZLIEKA\<close> is a single word, the phrase of the assignment kind \<open>TT_R\<close> has two
  words, and the phrase of the function-scope-delimiter kind \<open>TT_IZ\<close> is a single word.
\<close>

theorem phrase_word_counts:
  "length (phraseWords (keyword TT_ITZLIEKA)) = 1 \<and>
   length (phraseWords (keyword TT_R)) = 2 \<and>
   length (phraseWords (keyword TT_IZ)) = 1"
  unfolding keyword_def enum_value_def TokenTypes_def keywords_arr_def by simp

text \<open>
  C4: the array gives one and the same non-empty phrase to two different kinds, twice:
  to the loop-variable kinds \<open>TT_UPPIN\<close> and \<open>TT_NERFIN\<close>, and to the
  variable-declaration kinds \<open>TT_HASA\<close> and \<open>TT_HASAN\<close>.
\<close>

theorem duplicate_phrases:
  "TT_UPPIN \<noteq> TT_NERFIN \<and> keyword TT_UPPIN = keyword TT_NERFIN \<and> keyword TT_UPPIN \<noteq> [] \<and>
   TT_HASA \<noteq> TT_HASAN \<and> keyword TT_HASA = keyword TT_HASAN \<and> keyword TT_HASA \<noteq> []"
  unfolding keyword_def enum_value_def TokenTypes_def keywords_arr_def by simp

text \<open>
  C9, as the claim states it, fails: the phrase of \<open>TT_BANG\<close> is an exclamation mark
  and the phrase of \<open>TT_OHAIIM\<close> is written in Latin capitals; neither is empty, and
  neither is written in Devanagari.
\<close>

theorem phrases_not_devanagari:
  "keyword TT_BANG = ''!'' \<and> \<not> devanagariPhrase (keyword TT_BANG) \<and>
   keyword TT_OHAIIM = ''O HAI IM'' \<and> \<not> devanagariPhrase (keyword TT_OHAIIM)"
  unfolding keyword_def enum_value_def TokenTypes_def keywords_arr_def devanagariPhrase_def
  by simp

text \<open>
  C9, amended: every non-empty phrase of the keyword array is a string of one or more
  non-empty words separated by single spaces. The phrases of \<open>TT_OHAIIM\<close> and
  \<open>TT_IMLIEK\<close> left aside, its words are written in Devanagari for every kind but
  three, whose phrases hold an ASCII punctuation mark: \<open>TT_BANG\<close> (an exclamation
  mark), \<open>TT_ORLY\<close> (ends in a question mark) and \<open>TT_APOSTROPHEZ\<close> (begins with an
  apostrophe).
\<close>

theorem keyword_phrases_script:
  "\<forall>t. keyword t \<noteq> [] \<longrightarrow>
      wordsOfPhrase (keyword t) \<and>
      (t \<notin> {TT_OHAIIM, TT_IMLIEK} \<longrightarrow>
         (devanagariPhrase (keyword t) \<longleftrightarrow> t \<notin> {TT_BANG, TT_ORLY, TT_APOSTROPHEZ}))"
  using keyword_script_kinds by (simp only: all_kinds)

theorem keyword_phrases_script_witness:
  "keyword TT_HAI \<noteq> [] \<and> wordsOfPhrase (keyword TT_HAI) \<and> devanagariPhrase (keyword TT_HAI)"
proof -
  have ne: "keyword TT_HAI \<noteq> []"
    unfolding keyword_def enum_value_def TokenTypes_def keywords_arr_def by simp
  from keyword_phrases_script ne
  have "wordsOfPhrase (keyword TT_HAI) \<and>
      (TT_HAI \<notin> {TT_OHAIIM, TT_IMLIEK} \<longrightarrow>
         (devanagariPhrase (keyword TT_HAI) \<longleftrightarrow> TT_HAI \<notin> {TT_BANG, TT_ORLY, TT_APOSTROPHEZ}))"
    by blast
  with ne show ?thesis by simp
qed

text \<open>
  C10: the array has exactly one entry for every value of \<open>TokenType\<close>: it is as long as
  the enumeration, and the enumeration values are a bijection from the kinds to the
  indices of the array. The entry is the empty string exactly for the five literal
  kinds, the two structural kinds \<open>TT_EOF\<close> and \<open>TT_NEWLINE\<close>, and the sentinel
  \<open>TT_ENDOFTOKENS\<close>; every other kind has a non-empty phrase.
\<close>

theorem keywords_indexed_by_kind:
  "length keywords_arr = length TokenTypes \<and>
   distinct TokenTypes \<and> set TokenTypes = UNIV \<and>
   bij_betw enum_value UNIV {..<length keywords_arr} \<and>
   (\<forall>t. keyword t = [] \<longleftrightarrow>
      t \<in> {TT_INTEGER, TT_FLOAT, TT_STRING, TT_IDENTIFIER, TT_BOOLEAN, TT_EOF, TT_NEWLINE,
           TT_ENDOFTOKENS})"
proof -
  have "length keywords_arr = length TokenTypes"
    by (simp add: length_keywords_arr TokenTypes_def)
  moreover have "\<forall>t. keyword t = [] \<longleftrightarrow>
      t \<in> {TT_INTEGER, TT_FLOAT, TT_STRING, TT_IDENTIFIER, TT_BOOLEAN, TT_EOF, TT_NEWLINE,
           TT_ENDOFTOKENS}"
    using keyword_empty_kinds by (simp only: all_kinds)
  ultimately show ?thesis
    using TokenTypes_distinct TokenTypes_UNIV enum_value_bij by blast
qed

section \<open>The keyword recognizer: claims\<close>

lemma find_SomeD: "find P xs = Some x \<Longrightarrow> P x \<and> x \<in> set xs"
  by (induction xs) (auto split: if_splits)

lemma acceptLexemes_window:
  assumes "0 < acceptLexemes ls start p"
  shows "start + acceptLexemes ls start p \<le> length ls \<and>
    windowText ls start (acceptLexemes ls start p) = p"
proof (cases "find (\<lambda>n. windowText ls start n = p) [1..<Suc (length ls - start)]")
  case None
  with assms show ?thesis by (simp add: acceptLexemes_def)
next
  case (Some n)
  then have "acceptLexemes ls start p = n" by (simp add: acceptLexemes_def)
  moreover from find_SomeD [OF Some]
  have "windowText ls start n = p" and "n \<in> set [1..<Suc (length ls - start)]" by simp_all
  ultimately show ?thesis by auto
qed

lemma scanKeywords_None:
  "scanKeywords ls start es best = None \<longleftrightarrow>
     best = None \<and> list_all (\<lambda>e. acceptLexemes ls start (snd e) = 0) es"
proof (induction es arbitrary: best)
  case Nil
  show ?case by simp
next
  case (Cons e es)
  show ?case
    unfolding scanKeywords.simps Let_def Cons.IH
    by (cases best) auto
qed

lemma winsAt_Cons:
  assumes "winsAt ls start es j k n" and "acceptLexemes ls start (snd e) < n"
  shows "winsAt ls start (e # es) (Suc j) k n"
  using assms unfolding winsAt_def
  by (auto simp add: nth_Cons split: nat.splits)

lemma winsAt_head:
  assumes "0 < acceptLexemes ls start (snd e)"
    and "\<forall>i<length es. acceptLexemes ls start (snd (es ! i)) \<le> acceptLexemes ls start (snd e)"
  shows "winsAt ls start (e # es) 0 (fst e) (acceptLexemes ls start (snd e))"
  using assms unfolding winsAt_def
  by (auto simp add: nth_Cons split: nat.splits)

lemma scanKeywords_Some:
  "scanKeywords ls start es best = Some (k, n) \<Longrightarrow>
   (best = Some (k, n) \<and> (\<forall>i<length es. acceptLexemes ls start (snd (es ! i)) \<le> n))
     \<or> (\<exists>j. winsAt ls start es j k n \<and> (\<forall>b. best = Some b \<longrightarrow> snd b < n))"
proof (induction es arbitrary: best)
  case Nil
  then show ?case by simp
next
  case (Cons e es)
  define n0 where "n0 = acceptLexemes ls start (snd e)"
  define upd where "upd \<longleftrightarrow> 0 < n0 \<and> (case best of None \<Rightarrow> True | Some b \<Rightarrow> snd b < n0)"
  define best' where "best' = (if upd then Some (fst e, n0) else best)"
  from Cons.prems have "scanKeywords ls start es best' = Some (k, n)"
    unfolding best'_def upd_def n0_def by (simp add: Let_def)
  from Cons.IH [OF this]
  consider (kept) "best' = Some (k, n)"
      "\<forall>i<length es. acceptLexemes ls start (snd (es ! i)) \<le> n"
    | (later) j where "winsAt ls start es j k n" "\<forall>b. best' = Some b \<longrightarrow> snd b < n"
    by blast
  then show ?case
  proof cases
    case kept
    show ?thesis
    proof (cases upd)
      case True
      with kept(1) have kn: "k = fst e" "n = n0" by (simp_all add: best'_def)
      from True have "0 < n0" by (simp add: upd_def)
      with kept(2) kn have "winsAt ls start (e # es) 0 k n"
        using winsAt_head [of ls start e es] by (simp add: n0_def)
      moreover from True kn have "\<forall>b. best = Some b \<longrightarrow> snd b < n"
        by (auto simp add: upd_def)
      ultimately show ?thesis by blast
    next
      case False
      with kept(1) have b: "best = Some (k, n)" by (simp add: best'_def)
      with False have "n0 \<le> n" by (auto simp add: upd_def)
      with kept(2) have "\<forall>i<length (e # es). acceptLexemes ls start (snd ((e # es) ! i)) \<le> n"
        by (auto simp add: nth_Cons n0_def split: nat.splits)
      with b show ?thesis by blast
    qed
  next
    case later
    have "n0 < n \<and> (\<forall>b. best = Some b \<longrightarrow> snd b < n)"
    proof (cases upd)
      case True
      with later(2) have "n0 < n" by (simp add: best'_def)
      with True show ?thesis by (auto simp add: upd_def)
    next
      case False
      with later(2) have b: "\<forall>b. best = Some b \<longrightarrow> snd b < n" by (simp add: best'_def)
      from later(1) have "0 < n" by (simp add: winsAt_def)
      with False b show ?thesis by (cases best) (auto simp add: upd_def)
    qed
    with later(1) show ?thesis
      using winsAt_Cons [of ls start es j k n e] by (auto simp add: n0_def)
  qed
qed

lemma scanKeywords_winner:
  "scanKeywords ls start es None = Some (k, n) \<Longrightarrow> \<exists>j. winsAt ls start es j k n"
  using scanKeywords_Some [of ls start es None k n] by simp

lemma keyword_table_phrases: "list_all (\<lambda>e. keyword (fst e) = snd e) keyword_table"
  unfolding keyword_table_def keyword_def enum_value_def TokenTypes_def keywords_arr_def
  by simp

lemma keyword_table_no_EOF: "TT_EOF \<notin> fst ` set keyword_table"
  unfolding keyword_table_def keyword_def enum_value_def TokenTypes_def keywords_arr_def
  by simp

lemma isKeyword_None:
  "isKeyword ls start = None \<longleftrightarrow>
     list_all (\<lambda>e. acceptLexemes ls start (snd e) = 0) keyword_table"
  using scanKeywords_None [of ls start keyword_table None]
  by (auto simp add: isKeyword_def split: option.splits)

lemma isKeyword_Some:
  assumes "isKeyword ls start = Some (tok, n)"
  shows "\<exists>j. winsAt ls start keyword_table j (type tok) n \<and>
     tok = \<lparr>type = fst (keyword_table ! j), data = None, image = snd (keyword_table ! j),
            fname = lfname (ls ! start), line = lline (ls ! start)\<rparr>"
proof -
  from assms obtain k where scan: "scanKeywords ls start keyword_table None = Some (k, n)"
    and tok: "tok = \<lparr>type = k, data = None, image = keyword k,
            fname = lfname (ls ! start), line = lline (ls ! start)\<rparr>"
    by (auto simp add: isKeyword_def split: option.splits)
  from scanKeywords_winner [OF scan] obtain j where j: "winsAt ls start keyword_table j k n"
    by blast
  then have "j < length keyword_table" and "fst (keyword_table ! j) = k"
    by (simp_all add: winsAt_def)
  with keyword_table_phrases have "keyword k = snd (keyword_table ! j)"
    by (auto simp add: list_all_length)
  with j tok \<open>fst (keyword_table ! j) = k\<close> show ?thesis by auto
qed

text \<open>
  A keyword is recognised only at an index inside the list, and its window lies within
  the list: \<open>ls ! start\<close> in \<open>isKeyword\<close> is the first lexeme of the window.
\<close>

lemma isKeyword_in_range:
  assumes "isKeyword ls start = Some (tok, n)"
  shows "0 < n \<and> start + n \<le> length ls"
proof -
  from isKeyword_Some [OF assms] obtain j
    where "winsAt ls start keyword_table j (type tok) n"
    by blast
  then have "acceptLexemes ls start (snd (keyword_table ! j)) = n" and "0 < n"
    by (simp_all add: winsAt_def)
  then show ?thesis
    using acceptLexemes_window [of ls start "snd (keyword_table ! j)"] by simp
qed

text \<open>
  C1: \<open>isKeyword\<close> gives "no keyword" exactly when no entry of the table matches at the
  index. Otherwise the token and the count it gives are those of an entry \<open>j\<close> of the
  table whose phrase matches there with \<open>n\<close> lexemes, no entry of the table matches
  with more lexemes, and every entry before \<open>j\<close> in the table matches with fewer: the
  longest match, and the first entry in table order among those of that length.
\<close>

theorem isKeyword_longest_first:
  "(isKeyword ls start = None \<longleftrightarrow>
      list_all (\<lambda>e. acceptLexemes ls start (snd e) = 0) keyword_table) \<and>
   (\<forall>tok n. isKeyword ls start = Some (tok, n) \<longrightarrow>
      (\<exists>j<length keyword_table.
          type tok = fst (keyword_table ! j) \<and> image tok = snd (keyword_table ! j) \<and>
          acceptLexemes ls start (snd (keyword_table ! j)) = n \<and> 0 < n \<and>
          (\<forall>i<length keyword_table. acceptLexemes ls start (snd (keyword_table ! i)) \<le> n) \<and>
          (\<forall>i<j. acceptLexemes ls start (snd (keyword_table ! i)) < n)))"
proof (intro conjI allI impI)
  show "isKeyword ls start = None \<longleftrightarrow>
      list_all (\<lambda>e. acceptLexemes ls start (snd e) = 0) keyword_table"
    by (rule isKeyword_None)
next
  fix tok n
  assume "isKeyword ls start = Some (tok, n)"
  from isKeyword_Some [OF this] obtain j
    where w: "winsAt ls start keyword_table j (type tok) n"
      and t: "tok = \<lparr>type = fst (keyword_table ! j), data = None,
            image = snd (keyword_table ! j),
            fname = lfname (ls ! start), line = lline (ls ! start)\<rparr>"
    by blast
  from t have "image tok = snd (keyword_table ! j)" by simp
  with w show "\<exists>j<length keyword_table.
          type tok = fst (keyword_table ! j) \<and> image tok = snd (keyword_table ! j) \<and>
          acceptLexemes ls start (snd (keyword_table ! j)) = n \<and> 0 < n \<and>
          (\<forall>i<length keyword_table. acceptLexemes ls start (snd (keyword_table ! i)) \<le> n) \<and>
          (\<forall>i<j. acceptLexemes ls start (snd (keyword_table ! i)) < n)"
    unfolding winsAt_def by (intro exI [of _ j]) simp
qed

theorem isKeyword_longest_first_witness:
  "isKeyword ex_hai_ek 0 =
     Some (\<lparr>type = TT_ITZA, data = None, image = keyword TT_ITZA,
            fname = ''a.lol'', line = 3\<rparr>, 2) \<and>
   (\<exists>j<length keyword_table.
       TT_ITZA = fst (keyword_table ! j) \<and> keyword TT_ITZA = snd (keyword_table ! j) \<and>
       acceptLexemes ex_hai_ek 0 (snd (keyword_table ! j)) = 2 \<and>
       (\<forall>i<length keyword_table. acceptLexemes ex_hai_ek 0 (snd (keyword_table ! i)) \<le> 2) \<and>
       (\<forall>i<j. acceptLexemes ex_hai_ek 0 (snd (keyword_table ! i)) < 2)) \<and>
   acceptLexemes ex_hai_ek 0 (keyword TT_ITZ) = 1"
proof -
  have e: "isKeyword ex_hai_ek 0 =
     Some (\<lparr>type = TT_ITZA, data = None, image = keyword TT_ITZA,
            fname = ''a.lol'', line = 3\<rparr>, 2)"
    by code_simp
  have s: "acceptLexemes ex_hai_ek 0 (keyword TT_ITZ) = 1"
    by code_simp
  from isKeyword_longest_first [of ex_hai_ek 0] e s show ?thesis
    by simp
qed

section \<open>The token stream builder: claims\<close>

lemma createToken_type: "createToken decodeFloat k txt fn ln = Inr tok \<Longrightarrow> type tok = k"
  by (auto simp add: createToken_def Let_def split: if_splits option.splits)

lemma literalKind_not_EOF: "literalKind t = Some k \<Longrightarrow> k \<noteq> TT_EOF"
  by (auto simp add: literalKind_def split: if_splits)

lemma isKeyword_not_EOF:
  assumes "isKeyword ls cur = Some r"
  shows "type (fst r) \<noteq> TT_EOF"
proof -
  from assms have "isKeyword ls cur = Some (fst r, snd r)" by simp
  from isKeyword_Some [OF this] obtain j
    where w: "winsAt ls cur keyword_table j (type (fst r)) (snd r)"
    by blast
  then have "j < length keyword_table" and "fst (keyword_table ! j) = type (fst r)"
    by (simp_all add: winsAt_def)
  then have "type (fst r) \<in> fst ` set keyword_table"
    by (metis image_eqI nth_mem)
  with keyword_table_no_EOF show ?thesis by metis
qed

lemma tokenStep_not_EOF:
  assumes "tokenStep isBoolean decodeFloat ls cur = Inr r"
  shows "type (fst r) \<noteq> TT_EOF"
proof (cases "isKeyword ls cur")
  case (Some r')
  with assms have "r' = r" by (simp add: tokenStep_def)
  with Some show ?thesis using isKeyword_not_EOF by blast
next
  case None
  with assms show ?thesis
    by (auto simp add: tokenStep_def Let_def
        split: if_splits option.splits sum.splits
        dest!: createToken_type literalKind_not_EOF)
qed

lemma scanLexemes_end: "length ls \<le> cur \<Longrightarrow> scanLexemes isBoolean decodeFloat ls cur = Inr [eofToken]"
  by (subst scanLexemes.simps) simp

lemma scanLexemes_error:
  "cur < length ls \<Longrightarrow> tokenStep isBoolean decodeFloat ls cur = Inl e \<Longrightarrow>
   scanLexemes isBoolean decodeFloat ls cur = Inl e"
  by (subst scanLexemes.simps) simp

lemma scanLexemes_step:
  "cur < length ls \<Longrightarrow> tokenStep isBoolean decodeFloat ls cur = Inr r \<Longrightarrow>
   scanLexemes isBoolean decodeFloat ls cur =
     (case scanLexemes isBoolean decodeFloat ls (cur + snd r) of
        Inl e \<Rightarrow> Inl e
      | Inr toks \<Rightarrow> Inr (fst r # toks))"
  by (subst scanLexemes.simps) simp

lemma scanLexemes_tokens:
  "scanLexemes isBoolean decodeFloat ls cur = Inr toks \<Longrightarrow>
   toks \<noteq> [] \<and> last toks = eofToken \<and> length (filter (\<lambda>t. type t = TT_EOF) toks) = 1"
proof (induction isBoolean decodeFloat ls cur arbitrary: toks rule: scanLexemes.induct)
  case (1 isBoolean decodeFloat ls cur)
  show ?case
  proof (cases "length ls \<le> cur")
    case True
    with "1.prems" have "toks = [eofToken]" by (simp add: scanLexemes_end)
    then show ?thesis by (simp add: eofToken_def)
  next
    case False
    then have inside: "cur < length ls" by simp
    show ?thesis
    proof (cases "tokenStep isBoolean decodeFloat ls cur")
      case (Inl e)
      with inside "1.prems" show ?thesis by (simp add: scanLexemes_error)
    next
      case (Inr r)
      with inside "1.prems" obtain rest
        where rest: "scanLexemes isBoolean decodeFloat ls (cur + snd r) = Inr rest"
          and toks: "toks = fst r # rest"
        by (auto simp add: scanLexemes_step split: sum.splits)
      from "1.IH" [OF False Inr rest]
      have "rest \<noteq> []" and "last rest = eofToken"
        and "length (filter (\<lambda>t. type t = TT_EOF) rest) = 1"
        by simp_all
      moreover from tokenStep_not_EOF [OF Inr] have "type (fst r) \<noteq> TT_EOF" .
      ultimately show ?thesis by (simp add: toks)
    qed
  qed
qed

text \<open>
  C5: when \<open>tokenizeLexemes\<close> succeeds, the token list is not empty, its last element
  is the end-of-input token, and exactly one token of the list is of the end-of-input
  kind; the empty lexeme list gives the list of the end-of-input token alone.
\<close>

theorem tokenizeLexemes_single_EOF_last:
  "(\<forall>toks. tokenizeLexemes isBoolean decodeFloat ls = Inr toks \<longrightarrow>
      toks \<noteq> [] \<and> last toks = eofToken \<and> type (last toks) = TT_EOF \<and>
      length (filter (\<lambda>t. type t = TT_EOF) toks) = 1) \<and>
   tokenizeLexemes isBoolean decodeFloat [] = Inr [eofToken]"
proof (intro conjI allI impI)
  fix toks
  assume "tokenizeLexemes isBoolean decodeFloat ls = Inr toks"
  then have "scanLexemes isBoolean decodeFloat ls 0 = Inr toks" by (simp add: tokenizeLexemes_def)
  from scanLexemes_tokens [OF this]
  show "toks \<noteq> []" and "last toks = eofToken" and "type (last toks) = TT_EOF"
    and "length (filter (\<lambda>t. type t = TT_EOF) toks) = 1"
    by (simp_all add: eofToken_def)
next
  show "tokenizeLexemes isBoolean decodeFloat [] = Inr [eofToken]"
    by (simp add: tokenizeLexemes_def scanLexemes_end)
qed

theorem tokenizeLexemes_single_EOF_last_witness:
  "tokenizeLexemes ex_booleans Map.empty ex_line =
     Inr [\<lparr>type = TT_ITZA, data = None, image = keyword TT_ITZA,
            fname = ''a.lol'', line = 3\<rparr>,
          \<lparr>type = TT_INTEGER, data = Some (Data_i (- 7)), image = ''-7'',
            fname = ''a.lol'', line = 3\<rparr>,
          \<lparr>type = TT_NEWLINE, data = None, image = [CHR 0x0A],
            fname = ''a.lol'', line = 3\<rparr>,
          eofToken] \<and>
   last (projr (tokenizeLexemes ex_booleans Map.empty ex_line)) = eofToken \<and>
   length (filter (\<lambda>t. type t = TT_EOF) (projr (tokenizeLexemes ex_booleans Map.empty ex_line))) = 1"
proof -
  have e: "tokenizeLexemes ex_booleans Map.empty ex_line =
     Inr [\<lparr>type = TT_ITZA, data = None, image = keyword TT_ITZA,
            fname = ''a.lol'', line = 3\<rparr>,
          \<lparr>type = TT_INTEGER, data = Some (Data_i (- 7)), image = ''-7'',
            fname = ''a.lol'', line = 3\<rparr>,
          \<lparr>type = TT_NEWLINE, data = None, image = [CHR 0x0A],
            fname = ''a.lol'', line = 3\<rparr>,
          eofToken]"
    by code_simp
  from tokenizeLexemes_single_EOF_last [of ex_booleans Map.empty ex_line]
  have "last (projr (tokenizeLexemes ex_booleans Map.empty ex_line)) = eofToken \<and>
    length (filter (\<lambda>t. type t = TT_EOF) (projr (tokenizeLexemes ex_booleans Map.empty ex_line))) = 1"
    unfolding e by simp
  with e show ?thesis by simp
qed









text \<open>
  C8: on the single lexeme of the phrase of \<open>TT_HAI\<close> (U+0928 U+092E U+0938 U+094D
  U+0924 U+0947), whatever its file name and line, \<open>tokenizeLexemes\<close> gives exactly two
  tokens: the keyword token of kind \<open>TT_HAI\<close>, then the end-of-input token.
\<close>

theorem tokenizeLexemes_HAI:
  "tokenizeLexemes isBoolean decodeFloat
     [\<lparr>ltext = [CHR 0xE0, CHR 0xA4, CHR 0xA8, CHR 0xE0, CHR 0xA4, CHR 0xAE, CHR 0xE0, CHR 0xA4,
                CHR 0xB8, CHR 0xE0, CHR 0xA5, CHR 0x8D, CHR 0xE0, CHR 0xA4, CHR 0xA4, CHR 0xE0,
                CHR 0xA5, CHR 0x87], lfname = fn, lline = ln\<rparr>] =
     Inr [\<lparr>type = TT_HAI, data = None, image = keyword TT_HAI, fname = fn, line = ln\<rparr>,
          eofToken] \<and>
   type eofToken = TT_EOF"
  by code_simp

end
